theory Spec2Isabelle
  imports Main
begin

section \<open>SDK values read by the room setup component\<close>

text \<open>
  The types of the SDK (HMSTrack, HMSPeer, HMSRoom, HMSException, HMSPoll) are external;
  the records hold the fields that \<open>HMSRoomSetup\<close> reads, and one more field each for
  HMSTrack and HMSPeer (\<open>mute\<close>, \<open>name\<close>) so that two snapshots of the same track or
  peer can differ. An optional field of the source is an \<open>option\<close>.
\<close>

record HMSTrack =
  trackId :: string
  mute :: bool

record HMSRole =
  roleName :: string

record HMSPeer =
  peerID :: string
  name :: string
  role :: "HMSRole option"
  videoTrack :: "HMSTrack option"

record HMSRoom =
  roomID :: string
  room_localPeer :: HMSPeer

record HMSException =
  code :: int
  description :: "string option"
  isTerminal :: bool

datatype HMSPollUpdateType = started | stopped | resultsUpdated

record HMSPoll =
  pollId :: string
  createdBy :: "HMSPeer option"
  startedAt :: "int option"

datatype HMSWhiteboardUpdateType = STARTED | STOPPED

record HMSWhiteboard =
  whiteboardId :: string

datatype Chat_ChatState = CHAT_STATE_OPEN | CHAT_STATE_CLOSE

record ChatConfig =
  is_overlay :: bool
  initial_state :: "Chat_ChatState option"

section \<open>View model: meeting state, peer track nodes, notifications, actions\<close>

text \<open>
  Modelled from the spec: the enumeration MeetingState of \<open>./types\<close>. The component compares
  the state with IN_PREVIEW, IN_MEETING and MEETING_ENDED; \<open>NOT_JOINED\<close> stands for the
  remaining value (the state in which the component renders the loading indicator or the
  empty view).
\<close>

datatype MeetingState = NOT_JOINED | IN_PREVIEW | IN_MEETING | MEETING_ENDED

text \<open>
  Modelled from the spec: PeerTrackNode of \<open>./utils/types\<close>, the pair of a peer and an
  optional track that one tile renders.
\<close>

record PeerTrackNode =
  peer :: HMSPeer
  track :: "HMSTrack option"

text \<open>
  The declarations of \<open>./utils/types\<close>, \<open>./types\<close> and \<open>./redux/actions\<close> as the component
  uses them: the two leave reasons it passes, the three shapes of notification it builds
  (id first), and one constructor for each action creator it calls.
\<close>

datatype OnLeaveReason = LEAVE | NETWORK_ISSUES

datatype Notification =
    TERMINAL_ERROR string HMSException
  | ERROR string "string option"
  | POLLS_AND_QUIZZES string HMSPoll HMSPollUpdateType

datatype Action =
    addCuedPollId string
  | addNotification Notification
  | addPoll HMSPoll
  | changeMeetingState MeetingState
  | changeStartingHLSStream bool
  | setHMSLocalPeerState HMSPeer
  | setHMSRoomState HMSRoom
  | setInitialRole HMSRole
  | setLocalPeerTrackNode PeerTrackNode
  | setMiniViewPeerTrackNode PeerTrackNode
  | setWhiteboard "HMSWhiteboard option"
  | updateLocalPeerTrackNode HMSPeer "HMSTrack option"
  | SET_SHOW_CHAT_VIEW bool

text \<open>What runs when a button of an alert is pressed: the methods of \<open>useLeaveMethods\<close>.\<close>

datatype Command = leave OnLeaveReason | destroy OnLeaveReason

record AlertButton =
  button_text :: string
  button_style :: string
  onPress :: "Command list"

record Alert =
  alert_title :: string
  alert_message :: string
  buttons :: "AlertButton list"
  cancelable :: bool

datatype ToastDuration = Toast_LONG | Toast_SHORT
datatype ToastGravity = Toast_TOP | Toast_BOTTOM | Toast_CENTER

text \<open>Calls that leave the component, in the order they are made.\<close>

datatype Effect =
    Alert_alert Alert
  | Toast_showWithGravity string ToastDuration ToastGravity
  | clearConfig
  | hms_startHLSStreaming
  | hms_sendHLSTimedMetadata nat string

text \<open>
  The state the handlers work on: the slices of the redux store whose reducers are
  modelled (\<open>state.app.meetingState\<close>, \<open>state.hmsStates.localPeer\<close>,
  \<open>state.polls.polls\<close>), the two \<open>useState\<close> values of the component, and two logs:
  every action dispatched and every outside call, oldest first.
\<close>

record SetupState =
  app_meetingState :: MeetingState
  hmsStates_localPeer :: "HMSPeer option"
  polls_polls :: "string \<rightharpoonup> HMSPoll"
  peerTrackNodes :: "PeerTrackNode list"
  loading :: bool
  dispatched :: "Action list"
  effects :: "Effect list"

text \<open>
  Modelled from the spec: the reducers of \<open>./redux\<close> for the three actions whose slices the
  handlers read back. \<open>changeMeetingState\<close> stores the state it carries, \<open>addPoll\<close>
  stores the poll under its id, \<open>setHMSLocalPeerState\<close> stores the local peer. The slices
  written by the other actions are inputs of the handlers that read them.
\<close>

fun reducer :: "Action \<Rightarrow> SetupState \<Rightarrow> SetupState" where
  "reducer (changeMeetingState m) s = s\<lparr>app_meetingState := m\<rparr>"
| "reducer (addPoll p) s = s\<lparr>polls_polls := (polls_polls s)(pollId p \<mapsto> p)\<rparr>"
| "reducer (setHMSLocalPeerState p) s = s\<lparr>hmsStates_localPeer := Some p\<rparr>"
| "reducer _ s = s"

definition dispatch :: "Action \<Rightarrow> SetupState \<Rightarrow> SetupState" where
  "dispatch a s = (reducer a s)\<lparr>dispatched := dispatched s @ [a]\<rparr>"

definition setLoading :: "bool \<Rightarrow> SetupState \<Rightarrow> SetupState" where
  "setLoading b s = s\<lparr>loading := b\<rparr>"

definition setPeerTrackNodes ::
  "(PeerTrackNode list \<Rightarrow> PeerTrackNode list) \<Rightarrow> SetupState \<Rightarrow> SetupState" where
  "setPeerTrackNodes f s = s\<lparr>peerTrackNodes := f (peerTrackNodes s)\<rparr>"

definition perform :: "Effect \<Rightarrow> SetupState \<Rightarrow> SetupState" where
  "perform e s = s\<lparr>effects := effects s @ [e]\<rparr>"

definition initialState :: SetupState where
  "initialState =
     \<lparr>app_meetingState = NOT_JOINED, hmsStates_localPeer = None, polls_polls = Map.empty,
      peerTrackNodes = [], loading = False, dispatched = [], effects = []\<rparr>"

section \<open>Peer track node helpers\<close>

text \<open>
  The helpers of \<open>./utils/functions\<close> and \<open>./peerTrackNodeUtils\<close> that the join handler
  calls; their source is not available, so each follows the spec's account of the list:
  a node stands for a (peer, track) pair, and an existing node is replaced in place.
  A node is for a peer when it carries the peer's id, and for a peer and a track when it
  also carries the track's id.
\<close>

text \<open>Modelled from the spec: \<open>createPeerTrackNode\<close>, the node that pairs a peer with a track.\<close>

definition createPeerTrackNode :: "HMSPeer \<Rightarrow> HMSTrack option \<Rightarrow> PeerTrackNode" where
  "createPeerTrackNode p t = \<lparr>peer = p, track = t\<rparr>"

text \<open>Modelled from the spec: what "a node for the same peer" means.\<close>

definition forPeer :: "HMSPeer \<Rightarrow> PeerTrackNode \<Rightarrow> bool" where
  "forPeer p n = (peerID (peer n) = peerID p)"

text \<open>Modelled from the spec: what "a node for the same peer and track" means.\<close>

definition forPeerAndTrack :: "HMSPeer \<Rightarrow> HMSTrack \<Rightarrow> PeerTrackNode \<Rightarrow> bool" where
  "forPeerAndTrack p t n =
     (peerID (peer n) = peerID p \<and> map_option trackId (track n) = Some (trackId t))"

text \<open>
  Modelled from the spec: \<open>peerTrackNodeExistForPeerAndTrack\<close>, whether the list has a node
  for the peer and the track.
\<close>

definition peerTrackNodeExistForPeerAndTrack ::
  "PeerTrackNode list \<Rightarrow> HMSPeer \<Rightarrow> HMSTrack \<Rightarrow> bool" where
  "peerTrackNodeExistForPeerAndTrack nodes p t = list_ex (forPeerAndTrack p t) nodes"

text \<open>
  Modelled from the spec: \<open>replacePeerTrackNodesWithTrack\<close>, which replaces in place the
  peer and the track of every node for the peer and the track.
\<close>

definition replacePeerTrackNodesWithTrack ::
  "PeerTrackNode list \<Rightarrow> HMSPeer \<Rightarrow> HMSTrack \<Rightarrow> PeerTrackNode list" where
  "replacePeerTrackNodesWithTrack nodes p t =
     map (\<lambda>n. if forPeerAndTrack p t n then n\<lparr>peer := p, track := Some t\<rparr> else n) nodes"

text \<open>
  Modelled from the spec: \<open>peerTrackNodeExistForPeer\<close>, whether the list has a node for the
  peer.
\<close>

definition peerTrackNodeExistForPeer :: "PeerTrackNode list \<Rightarrow> HMSPeer \<Rightarrow> bool" where
  "peerTrackNodeExistForPeer nodes p = list_ex (forPeer p) nodes"

text \<open>
  Modelled from the spec: \<open>replacePeerTrackNodes\<close>, which replaces in place the peer of
  every node for the peer; it is given no track, so the nodes keep theirs.
\<close>

definition replacePeerTrackNodes :: "PeerTrackNode list \<Rightarrow> HMSPeer \<Rightarrow> PeerTrackNode list" where
  "replacePeerTrackNodes nodes p = map (\<lambda>n. if forPeer p n then n\<lparr>peer := p\<rparr> else n) nodes"

text \<open>The (peer, track) combination a node stands for.\<close>

definition nodeKey :: "PeerTrackNode \<Rightarrow> string \<times> string option" where
  "nodeKey n = (peerID (peer n), map_option trackId (track n))"

section \<open>The join handler\<close>

text \<open>
  What \<open>onJoinHandler\<close> reads from the store snapshot and the local peer through selectors
  defined in other modules: \<open>isPublishingAllowed(localPeer)\<close>, \<open>selectIsHLSViewer\<close>,
  \<open>enable_local_tile_inset\<close> of the video tile layout (possibly undefined),
  \<open>selectChatLayoutConfig\<close>, \<open>reduxState.app.localPeerTrackNode\<close> and
  \<open>selectShouldGoLive\<close>.
\<close>

record JoinSnapshot =
  isPublishingAllowed :: bool
  isHLSViewer :: bool
  enable_local_tile_inset :: "bool option"
  chatConfig :: "ChatConfig option"
  app_localPeerTrackNode :: "PeerTrackNode option"
  shouldGoLive :: bool

definition enableLocalTileInset :: "JoinSnapshot \<Rightarrow> bool" where
  "enableLocalTileInset r = (enable_local_tile_inset r = Some True)"

definition canCreateTile :: "JoinSnapshot \<Rightarrow> bool" where
  "canCreateTile r = (isPublishingAllowed r \<and> \<not> isHLSViewer r)"

definition overlayChatOpen :: "JoinSnapshot \<Rightarrow> bool" where
  "overlayChatOpen r =
     (case chatConfig r of
        None \<Rightarrow> False
      | Some c \<Rightarrow> is_overlay c \<and> initial_state c = Some CHAT_STATE_OPEN)"

text \<open>The actions of the \<open>batch\<close> of the join handler, in order.\<close>

definition onJoin_batch :: "JoinSnapshot \<Rightarrow> HMSRoom \<Rightarrow> Action list" where
  "onJoin_batch r data =
     (let p = room_localPeer data;
          localPeerTrackNode = createPeerTrackNode p (videoTrack p)
      in (if overlayChatOpen r then [SET_SHOW_CHAT_VIEW True] else [])
       @ (if canCreateTile r
          then (case app_localPeerTrackNode r of
                  Some _ \<Rightarrow> [updateLocalPeerTrackNode p (videoTrack p)]
                | None \<Rightarrow> [setLocalPeerTrackNode localPeerTrackNode])
             @ (if enableLocalTileInset r
                then [setMiniViewPeerTrackNode localPeerTrackNode] else [])
          else [])
       @ [setHMSRoomState data, setHMSLocalPeerState (room_localPeer data)]
       @ (case role (room_localPeer data) of
            Some ro \<Rightarrow> [setInitialRole ro]
          | None \<Rightarrow> []))"

text \<open>The updater that the join handler passes to \<open>setPeerTrackNodes\<close>.\<close>

definition onJoin_updater ::
  "JoinSnapshot \<Rightarrow> HMSRoom \<Rightarrow> PeerTrackNode list \<Rightarrow> PeerTrackNode list" where
  "onJoin_updater r data prevPeerTrackNodes =
     (let p = room_localPeer data;
          localPeerTrackNode = createPeerTrackNode p (videoTrack p);
          otherwise =
            (if peerTrackNodeExistForPeer prevPeerTrackNodes p
             then replacePeerTrackNodes prevPeerTrackNodes p
             else if \<not> enableLocalTileInset r \<and> canCreateTile r
             then localPeerTrackNode # prevPeerTrackNodes
             else prevPeerTrackNodes)
      in case videoTrack p of
           Some t \<Rightarrow>
             if peerTrackNodeExistForPeerAndTrack prevPeerTrackNodes p t
             then replacePeerTrackNodesWithTrack prevPeerTrackNodes p t
             else otherwise
         | None \<Rightarrow> otherwise)"

text \<open>
  \<open>startHLSStreaming\<close> up to its first \<open>await\<close>: the part that runs inside the join
  handler.
\<close>

definition startHLSStreaming :: "SetupState \<Rightarrow> SetupState" where
  "startHLSStreaming s = perform hms_startHLSStreaming (dispatch (changeStartingHLSStream True) s)"

definition onJoinHandler :: "JoinSnapshot \<Rightarrow> HMSRoom \<Rightarrow> SetupState \<Rightarrow> SetupState" where
  "onJoinHandler r data s0 =
     (let s1 = perform clearConfig s0;
          s2 = setLoading False s1;
          s3 = fold dispatch (onJoin_batch r data) s2;
          s4 = setPeerTrackNodes (onJoin_updater r data) s3;
          s5 = (if shouldGoLive r then startHLSStreaming s4 else s4)
      in dispatch (changeMeetingState IN_MEETING) s5)"

section \<open>The preview handler\<close>

definition onPreviewHandler :: "HMSRoom \<Rightarrow> SetupState \<Rightarrow> SetupState" where
  "onPreviewHandler room s0 =
     (let s1 = setLoading False s0;
          s2 = dispatch (setHMSRoomState room) s1;
          s3 = dispatch (setHMSLocalPeerState (room_localPeer room)) s2
      in dispatch (changeMeetingState IN_PREVIEW) s3)"

section \<open>The error handler\<close>

text \<open>\<open>Number.prototype.toString\<close> on an integer.\<close>

fun nat_toString :: "nat \<Rightarrow> string" where
  "nat_toString n =
     (if n < 10 then [''0123456789'' ! n]
      else nat_toString (n div 10) @ [''0123456789'' ! (n mod 10)])"

definition int_toString :: "int \<Rightarrow> string" where
  "int_toString i = (if i < 0 then CHR ''-'' # nat_toString (nat (- i)) else nat_toString (nat i))"

text \<open>\<open>x || fallback\<close> on an optional string: undefined and the empty string are falsy.\<close>

definition orElse :: "string option \<Rightarrow> string \<Rightarrow> string" where
  "orElse x fallback = (case x of None \<Rightarrow> fallback | Some t \<Rightarrow> if t = [] then fallback else t)"

text \<open>An optional string inside a template literal.\<close>

definition interpolate :: "string option \<Rightarrow> string" where
  "interpolate x = (case x of None \<Rightarrow> ''undefined'' | Some t \<Rightarrow> t)"

text \<open>
  \<open>TerminalExceptionCodes\<close> (a constant of \<open>./utils/types\<close>) is a parameter, and so is
  the random \<open>uid\<close>. \<open>meetingJoined\<close> and \<open>previewing\<close> are the values the effect
  closed over: the meeting state of the render that registered the handler.
\<close>

definition terminalError :: "int list \<Rightarrow> HMSException \<Rightarrow> bool" where
  "terminalError TerminalExceptionCodes e = (isTerminal e \<or> code e \<in> set TerminalExceptionCodes)"

definition terminalErrorAlert :: "bool \<Rightarrow> HMSException \<Rightarrow> Alert" where
  "terminalErrorAlert previewing e =
     \<lparr>alert_title = int_toString (code e),
      alert_message = orElse (description e) ''Something went wrong'',
      buttons =
        [\<lparr>button_text = ''Leave'', button_style = ''destructive'',
          onPress = (if previewing then [leave NETWORK_ISSUES] else [destroy NETWORK_ISSUES])\<rparr>],
      cancelable = False\<rparr>"

definition hmsErrorHandler ::
  "int list \<Rightarrow> MeetingState \<Rightarrow> string \<Rightarrow> HMSException \<Rightarrow> SetupState \<Rightarrow> SetupState" where
  "hmsErrorHandler TerminalExceptionCodes meetingState uid e s =
     (let meetingJoined = (meetingState = IN_MEETING);
          previewing = (meetingState = IN_PREVIEW)
      in if meetingJoined
         then dispatch
                (addNotification
                  (if terminalError TerminalExceptionCodes e
                   then TERMINAL_ERROR uid e
                   else ERROR uid (description e))) s
         else (let s1 = setLoading False s
               in if terminalError TerminalExceptionCodes e
                  then perform (Alert_alert (terminalErrorAlert previewing e)) s1
                  else perform
                         (Toast_showWithGravity
                           (orElse (Some (int_toString (code e) @ '' '' @ interpolate (description e)))
                              ''Something went wrong'')
                           Toast_LONG Toast_TOP) s1))"

text \<open>What the handlers' outside calls amount to for the user.\<close>

fun alertsOf :: "Effect list \<Rightarrow> Alert list" where
  "alertsOf [] = []"
| "alertsOf (Alert_alert a # es) = a # alertsOf es"
| "alertsOf (_ # es) = alertsOf es"

fun toastsOf :: "Effect list \<Rightarrow> string list" where
  "toastsOf [] = []"
| "toastsOf (Toast_showWithGravity m _ _ # es) = m # toastsOf es"
| "toastsOf (_ # es) = toastsOf es"

section \<open>Poll and whiteboard listeners\<close>

text \<open>
  The update type inside the template literal of the notification id. The values of the
  SDK's enumeration are external; the member names stand for them.
\<close>

definition pollUpdateTypeText :: "HMSPollUpdateType \<Rightarrow> string" where
  "pollUpdateTypeText u =
     (case u of started \<Rightarrow> ''started'' | stopped \<Rightarrow> ''stopped''
      | resultsUpdated \<Rightarrow> ''resultsUpdated'')"

definition pollNotification :: "HMSPoll \<Rightarrow> HMSPollUpdateType \<Rightarrow> Notification" where
  "pollNotification poll pollUpdateType =
     POLLS_AND_QUIZZES (pollId poll @ ''--'' @ pollUpdateTypeText pollUpdateType) poll pollUpdateType"

definition createdByLocalPeer :: "HMSPoll \<Rightarrow> SetupState \<Rightarrow> bool" where
  "createdByLocalPeer poll s =
     (case createdBy poll of
        None \<Rightarrow> False
      | Some c \<Rightarrow>
          (case hmsStates_localPeer s of
             None \<Rightarrow> False
           | Some l \<Rightarrow> peerID c = peerID l))"

text \<open>
  The callback given to \<open>addPollUpdateListener\<close>. \<open>isHLSViewer\<close> is the value the effect
  closed over, \<open>now\<close> is \<open>Date.now()\<close>, and \<open>startedAt\<close> holds \<open>getTime()\<close> of the
  poll's start date, both in milliseconds.
\<close>

definition pollUpdateListener ::
  "bool \<Rightarrow> int \<Rightarrow> HMSPoll \<Rightarrow> HMSPollUpdateType \<Rightarrow> SetupState \<Rightarrow> SetupState" where
  "pollUpdateListener viewer now poll pollUpdateType s0 =
     (let pollsData = polls_polls s0;
          s1 = (if createdByLocalPeer poll s0
                then perform (hms_sendHLSTimedMetadata 20 (''poll:'' @ pollId poll)) s0
                else s0);
          s2 = dispatch (addPoll poll) s1
      in if pollUpdateType = started \<and> pollsData (pollId poll) = None
         then (if viewer
               then (case startedAt poll of
                       None \<Rightarrow> s2
                     | Some t \<Rightarrow>
                         if now - t \<ge> 20000
                         then dispatch (addCuedPollId (pollId poll))
                                (dispatch (addNotification (pollNotification poll pollUpdateType)) s2)
                         else s2)
               else dispatch (addNotification (pollNotification poll pollUpdateType)) s2)
         else s2)"

definition whiteboardUpdateListener ::
  "HMSWhiteboard \<Rightarrow> HMSWhiteboardUpdateType \<Rightarrow> SetupState \<Rightarrow> SetupState" where
  "whiteboardUpdateListener hmsWhiteboard updateType s =
     dispatch (setWhiteboard (if updateType = STARTED then Some hmsWhiteboard else None)) s"

text \<open>One poll update as the listener receives it, with the closure value and the clock.\<close>

record PollUpdate =
  upd_viewer :: bool
  upd_now :: int
  upd_poll :: HMSPoll
  upd_type :: HMSPollUpdateType

definition onPollUpdate :: "PollUpdate \<Rightarrow> SetupState \<Rightarrow> SetupState" where
  "onPollUpdate u s = pollUpdateListener (upd_viewer u) (upd_now u) (upd_poll u) (upd_type u) s"

text \<open>The notifications about the poll with a given id among the actions dispatched.\<close>

fun pollNotificationsFor :: "string \<Rightarrow> Action list \<Rightarrow> nat" where
  "pollNotificationsFor i [] = 0"
| "pollNotificationsFor i (addNotification (POLLS_AND_QUIZZES _ p _) # as) =
     (if pollId p = i then Suc (pollNotificationsFor i as) else pollNotificationsFor i as)"
| "pollNotificationsFor i (_ # as) = pollNotificationsFor i as"

text \<open>The guard under which the listener dispatches the notification.\<close>

definition notified :: "PollUpdate \<Rightarrow> SetupState \<Rightarrow> bool" where
  "notified u s =
     (upd_type u = started \<and> polls_polls s (pollId (upd_poll u)) = None
      \<and> (if upd_viewer u
         then (case startedAt (upd_poll u) of None \<Rightarrow> False | Some t \<Rightarrow> 20000 \<le> upd_now u - t)
         else True))"

section \<open>Lifecycle events and the meeting state\<close>

datatype SDKEvent = ON_PREVIEW_event HMSRoom | ON_JOIN_event JoinSnapshot HMSRoom
  | ON_ERROR_event string HMSException

text \<open>
  An event reaches the handler that the last render registered: the error handler closes
  over the meeting state of the store at that time.
\<close>

fun onEvent :: "int list \<Rightarrow> SDKEvent \<Rightarrow> SetupState \<Rightarrow> SetupState" where
  "onEvent codes (ON_PREVIEW_event room) s = onPreviewHandler room s"
| "onEvent codes (ON_JOIN_event r data) s = onJoinHandler r data s"
| "onEvent codes (ON_ERROR_event uid e) s = hmsErrorHandler codes (app_meetingState s) uid e s"

text \<open>The meeting state after each event of a sequence, oldest first.\<close>

fun meetingStates :: "int list \<Rightarrow> SDKEvent list \<Rightarrow> SetupState \<Rightarrow> MeetingState list" where
  "meetingStates codes [] s = []"
| "meetingStates codes (ev # evs) s =
     app_meetingState (onEvent codes ev s) # meetingStates codes evs (onEvent codes ev s)"

fun stage :: "MeetingState \<Rightarrow> nat" where
  "stage NOT_JOINED = 0"
| "stage IN_PREVIEW = 1"
| "stage IN_MEETING = 2"
| "stage MEETING_ENDED = 3"

fun forward :: "MeetingState \<Rightarrow> MeetingState list \<Rightarrow> bool" where
  "forward m [] = True"
| "forward m (m' # ms) = (stage m \<le> stage m' \<and> forward m' ms)"

fun isJoin :: "SDKEvent \<Rightarrow> bool" where
  "isJoin (ON_JOIN_event _ _) = True"
| "isJoin _ = False"

fun isPreview :: "SDKEvent \<Rightarrow> bool" where
  "isPreview (ON_PREVIEW_event _) = True"
| "isPreview _ = False"

text \<open>No preview event after a join event.\<close>

fun previewsBeforeJoins :: "SDKEvent list \<Rightarrow> bool" where
  "previewsBeforeJoins [] = True"
| "previewsBeforeJoins (ev # evs) =
     ((if isJoin ev then list_all (\<lambda>e. \<not> isPreview e) evs else True) \<and> previewsBeforeJoins evs)"

section \<open>Listener registration over the component's lifetime\<close>

datatype HMSUpdateListenerActions = ON_ERROR | ON_PREVIEW | ON_JOIN | ON_PERMISSIONS_REQUESTED

text \<open>
  The listener side of the SDK instance: the actions that have an event listener attached,
  and the live subscriptions of the interactivity center, each with the id that its
  subscription object stands for.
\<close>

record HMSInstance =
  eventListeners :: "HMSUpdateListenerActions list"
  pollUpdateListeners :: "nat list"
  whiteboardUpdateListeners :: "nat list"
  nextSubscription :: nat

definition addEventListener :: "HMSUpdateListenerActions \<Rightarrow> HMSInstance \<Rightarrow> HMSInstance" where
  "addEventListener a h = h\<lparr>eventListeners := a # removeAll a (eventListeners h)\<rparr>"

definition removeEventListener :: "HMSUpdateListenerActions \<Rightarrow> HMSInstance \<Rightarrow> HMSInstance" where
  "removeEventListener a h = h\<lparr>eventListeners := removeAll a (eventListeners h)\<rparr>"

definition addPollUpdateListener :: "HMSInstance \<Rightarrow> nat \<times> HMSInstance" where
  "addPollUpdateListener h =
     (nextSubscription h,
      h\<lparr>pollUpdateListeners := nextSubscription h # pollUpdateListeners h,
        nextSubscription := Suc (nextSubscription h)\<rparr>)"

definition addWhiteboardUpdateListener :: "HMSInstance \<Rightarrow> nat \<times> HMSInstance" where
  "addWhiteboardUpdateListener h =
     (nextSubscription h,
      h\<lparr>whiteboardUpdateListeners := nextSubscription h # whiteboardUpdateListeners h,
        nextSubscription := Suc (nextSubscription h)\<rparr>)"

definition removePollSubscription :: "nat \<Rightarrow> HMSInstance \<Rightarrow> HMSInstance" where
  "removePollSubscription i h = h\<lparr>pollUpdateListeners := removeAll i (pollUpdateListeners h)\<rparr>"

definition removeWhiteboardSubscription :: "nat \<Rightarrow> HMSInstance \<Rightarrow> HMSInstance" where
  "removeWhiteboardSubscription i h =
     h\<lparr>whiteboardUpdateListeners := removeAll i (whiteboardUpdateListeners h)\<rparr>"

text \<open>
  The mounted component: the SDK instance and the \<open>subscription\<close> constants that the
  cleanup closures of the poll and whiteboard effects hold.
\<close>

record Mounted =
  hmsInstance :: HMSInstance
  pollSubscription :: "nat option"
  whiteboardSubscription :: "nat option"

datatype ListenerEffect =
    ErrorListener | PreviewListener | JoinListener | PermissionsListener
  | PollListener | WhiteboardListener

fun effectBody :: "ListenerEffect \<Rightarrow> Mounted \<Rightarrow> Mounted" where
  "effectBody ErrorListener m = m\<lparr>hmsInstance := addEventListener ON_ERROR (hmsInstance m)\<rparr>"
| "effectBody PreviewListener m = m\<lparr>hmsInstance := addEventListener ON_PREVIEW (hmsInstance m)\<rparr>"
| "effectBody JoinListener m = m\<lparr>hmsInstance := addEventListener ON_JOIN (hmsInstance m)\<rparr>"
| "effectBody PermissionsListener m =
     m\<lparr>hmsInstance := addEventListener ON_PERMISSIONS_REQUESTED (hmsInstance m)\<rparr>"
| "effectBody PollListener m =
     (case addPollUpdateListener (hmsInstance m) of
        (subscription, h) \<Rightarrow> m\<lparr>hmsInstance := h, pollSubscription := Some subscription\<rparr>)"
| "effectBody WhiteboardListener m =
     (case addWhiteboardUpdateListener (hmsInstance m) of
        (subscription, h) \<Rightarrow> m\<lparr>hmsInstance := h, whiteboardSubscription := Some subscription\<rparr>)"

fun effectCleanup :: "ListenerEffect \<Rightarrow> Mounted \<Rightarrow> Mounted" where
  "effectCleanup ErrorListener m = m\<lparr>hmsInstance := removeEventListener ON_ERROR (hmsInstance m)\<rparr>"
| "effectCleanup PreviewListener m =
     m\<lparr>hmsInstance := removeEventListener ON_PREVIEW (hmsInstance m)\<rparr>"
| "effectCleanup JoinListener m = m\<lparr>hmsInstance := removeEventListener ON_JOIN (hmsInstance m)\<rparr>"
| "effectCleanup PermissionsListener m =
     m\<lparr>hmsInstance := removeEventListener ON_PERMISSIONS_REQUESTED (hmsInstance m)\<rparr>"
| "effectCleanup PollListener m =
     (case pollSubscription m of
        None \<Rightarrow> m
      | Some subscription \<Rightarrow>
          m\<lparr>hmsInstance := removePollSubscription subscription (hmsInstance m),
            pollSubscription := None\<rparr>)"
| "effectCleanup WhiteboardListener m =
     (case whiteboardSubscription m of
        None \<Rightarrow> m
      | Some subscription \<Rightarrow>
          m\<lparr>hmsInstance := removeWhiteboardSubscription subscription (hmsInstance m),
            whiteboardSubscription := None\<rparr>)"

datatype PlatformOS = android | ios

text \<open>The listener effects of \<open>HMSRoomSetup\<close> in the order the component declares them.\<close>

definition listenerEffects :: "PlatformOS \<Rightarrow> ListenerEffect list" where
  "listenerEffects os =
     [ErrorListener, PreviewListener, JoinListener]
     @ (if os = android then [PermissionsListener] else [])
     @ [PollListener, WhiteboardListener]"

text \<open>
  The effect lifecycle: mounting runs every effect body, a change of an effect's
  dependencies runs its cleanup and then its body again, unmounting runs every cleanup.
\<close>

definition mount :: "PlatformOS \<Rightarrow> Mounted \<Rightarrow> Mounted" where
  "mount os m = fold effectBody (listenerEffects os) m"

definition rerun :: "ListenerEffect \<Rightarrow> Mounted \<Rightarrow> Mounted" where
  "rerun e m = effectBody e (effectCleanup e m)"

definition unmount :: "PlatformOS \<Rightarrow> Mounted \<Rightarrow> Mounted" where
  "unmount os m = fold effectCleanup (listenerEffects os) m"

definition freshInstance :: "nat \<Rightarrow> Mounted" where
  "freshInstance k =
     \<lparr>hmsInstance = \<lparr>eventListeners = [], pollUpdateListeners = [],
        whiteboardUpdateListeners = [], nextSubscription = k\<rparr>,
      pollSubscription = None, whiteboardSubscription = None\<rparr>"

definition noListeners :: "Mounted \<Rightarrow> bool" where
  "noListeners m =
     (eventListeners (hmsInstance m) = [] \<and> pollUpdateListeners (hmsInstance m) = []
      \<and> whiteboardUpdateListeners (hmsInstance m) = [])"

text \<open>Every listener of the component is attached, each subscription exactly once.\<close>

definition listenerActions :: "PlatformOS \<Rightarrow> HMSUpdateListenerActions list" where
  "listenerActions os =
     [ON_ERROR, ON_PREVIEW, ON_JOIN] @ (if os = android then [ON_PERMISSIONS_REQUESTED] else [])"

definition allRegistered :: "PlatformOS \<Rightarrow> Mounted \<Rightarrow> bool" where
  "allRegistered os m =
     (set (eventListeners (hmsInstance m)) = set (listenerActions os)
      \<and> (case pollSubscription m of
           None \<Rightarrow> False
         | Some i \<Rightarrow> pollUpdateListeners (hmsInstance m) = [i])
      \<and> (case whiteboardSubscription m of
           None \<Rightarrow> False
         | Some i \<Rightarrow> whiteboardUpdateListeners (hmsInstance m) = [i]))"

section \<open>Automatic preview or join\<close>

record HMSConfig =
  username :: "string option"

text \<open>
  What \<open>handleMeetingPreviewOrJoin\<close> reads: the outcome of \<open>getConfig()\<close> (\<open>None\<close> when
  the promise rejects), \<open>getJoinConfig().skipPreview\<close>, \<open>skip_preview_screen\<close> of the
  first layout (possibly undefined) and the value of \<open>getRandomUserId(16)\<close>.
\<close>

record AutoInputs =
  getConfig_result :: "HMSConfig option"
  skipPreview :: bool
  skip_preview_screen :: "bool option"
  randomUserId :: string

datatype InitCall = updateConfig_username string | joinMeeting | previewMeeting

definition handleMeetingPreviewOrJoin :: "AutoInputs \<Rightarrow> InitCall list" where
  "handleMeetingPreviewOrJoin i =
     (case getConfig_result i of
        None \<Rightarrow> []
      | Some hmsConfig \<Rightarrow>
          if skipPreview i \<or> skip_preview_screen i = Some True
          then (if orElse (username hmsConfig) [] = []
                then [updateConfig_username (randomUserId i)] else [])
               @ [joinMeeting]
          else [previewMeeting])"

text \<open>
  One run of the effect: the render's \<open>meetingEnded\<close>, the inputs and the value of the ref
  \<open>didInitMeetingAction\<close>; it returns the new value of the ref and, when
  \<open>handleMeetingPreviewOrJoin\<close> was invoked, the calls it made.
\<close>

definition autoMeetingEffect :: "bool \<Rightarrow> AutoInputs \<Rightarrow> bool \<Rightarrow> bool \<times> InitCall list option" where
  "autoMeetingEffect meetingEnded i didInitMeetingAction =
     (if \<not> meetingEnded \<and> \<not> didInitMeetingAction
      then (True, Some (handleMeetingPreviewOrJoin i))
      else (didInitMeetingAction, None))"

text \<open>The invocations over a sequence of runs of the effect in one component lifetime.\<close>

fun autoMeetingRuns :: "bool \<Rightarrow> (bool \<times> AutoInputs) list \<Rightarrow> InitCall list list" where
  "autoMeetingRuns didInit [] = []"
| "autoMeetingRuns didInit ((meetingEnded, i) # rs) =
     (case autoMeetingEffect meetingEnded i didInit of
        (didInit', None) \<Rightarrow> autoMeetingRuns didInit' rs
      | (didInit', Some calls) \<Rightarrow> calls # autoMeetingRuns didInit' rs)"

fun isMeetingAction :: "InitCall \<Rightarrow> bool" where
  "isMeetingAction joinMeeting = True"
| "isMeetingAction previewMeeting = True"
| "isMeetingAction _ = False"

section \<open>The preview join button\<close>

datatype TestId = go_live_btn | join_now_btn

datatype IconStyle = disabledLiveIcon | activeLiveIcon

record HMSPrimaryButton =
  testId :: TestId
  button_loading :: bool
  button_title :: string
  disabled :: bool
  leftComponent :: "IconStyle option"

record JoinFormLabels =
  join_btn_label :: "string option"
  go_live_btn_label :: "string option"

text \<open>
  The render of \<open>HMSPreviewJoinButton\<close>: the props \<open>joinTitle\<close> and \<open>loading\<close>, then
  what the hooks return: \<open>state.user.userName\<close>, the labels of the join form and
  \<open>useShouldGoLive()\<close>.
\<close>

definition HMSPreviewJoinButton ::
  "string \<Rightarrow> bool \<Rightarrow> string \<Rightarrow> JoinFormLabels \<Rightarrow> bool \<Rightarrow> HMSPrimaryButton" where
  "HMSPreviewJoinButton joinTitle loadingProp userName labels goLive =
     (let userNameInvalid = (length userName \<le> 0);
          joinBtnLabel = orElse (join_btn_label labels) ''Join Now'';
          goLiveBtnLabel = orElse (go_live_btn_label labels) ''Go Live'';
          disabledJoin = (userNameInvalid \<or> loadingProp)
      in \<lparr>testId = (if goLive then go_live_btn else join_now_btn),
          button_loading = loadingProp,
          button_title = (if goLive then goLiveBtnLabel else joinTitle),
          disabled = disabledJoin,
          leftComponent =
            (if goLive then Some (if disabledJoin then disabledLiveIcon else activeLiveIcon)
             else None)\<rparr>)"

section \<open>Example inputs\<close>

definition example_track :: HMSTrack where
  "example_track = \<lparr>trackId = ''t1'', mute = False\<rparr>"

definition example_peer :: HMSPeer where
  "example_peer =
     \<lparr>peerID = ''p1'', name = ''ann'', role = Some \<lparr>roleName = ''host''\<rparr>,
      videoTrack = Some example_track\<rparr>"

definition example_room :: HMSRoom where
  "example_room = \<lparr>roomID = ''r1'', room_localPeer = example_peer\<rparr>"

definition example_publisher :: JoinSnapshot where
  "example_publisher =
     \<lparr>isPublishingAllowed = True, isHLSViewer = False, enable_local_tile_inset = Some False,
      chatConfig = None, app_localPeerTrackNode = None, shouldGoLive = False\<rparr>"

definition example_inset :: JoinSnapshot where
  "example_inset = example_publisher\<lparr>enable_local_tile_inset := Some True\<rparr>"

definition example_terminal :: HMSException where
  "example_terminal = \<lparr>code = 4005, description = Some ''ICE failure'', isTerminal = True\<rparr>"

definition example_nonterminal :: HMSException where
  "example_nonterminal = \<lparr>code = 3001, description = None, isTerminal = False\<rparr>"

definition example_poll :: HMSPoll where
  "example_poll = \<lparr>pollId = ''poll1'', createdBy = None, startedAt = Some 0\<rparr>"

definition example_update :: "int \<Rightarrow> PollUpdate" where
  "example_update t =
     \<lparr>upd_viewer = True, upd_now = t, upd_poll = example_poll, upd_type = started\<rparr>"

definition example_inputs :: "bool \<Rightarrow> AutoInputs" where
  "example_inputs skip =
     \<lparr>getConfig_result = Some \<lparr>username = None\<rparr>, skipPreview = skip,
      skip_preview_screen = None, randomUserId = ''a1b2c3d4e5f6a7b8''\<rparr>"

definition example_labels :: JoinFormLabels where
  "example_labels = \<lparr>join_btn_label = None, go_live_btn_label = None\<rparr>"

definition example_guest :: HMSPeer where
  "example_guest = \<lparr>peerID = ''p2'', name = ''bob'', role = None, videoTrack = None\<rparr>"

definition example_joined :: SetupState where
  "example_joined =
     initialState\<lparr>peerTrackNodes :=
       [createPeerTrackNode example_guest None,
        createPeerTrackNode (example_peer\<lparr>name := ''an''\<rparr>) (Some (example_track\<lparr>mute := True\<rparr>))]\<rparr>"

definition example_audio_only :: SetupState where
  "example_audio_only =
     initialState\<lparr>peerTrackNodes :=
       [createPeerTrackNode example_guest None,
        createPeerTrackNode (example_peer\<lparr>name := ''an''\<rparr>) None]\<rparr>"

lemmas example_defs = example_track_def example_peer_def example_room_def
  example_publisher_def example_inset_def

lemmas helper_defs = peerTrackNodeExistForPeerAndTrack_def peerTrackNodeExistForPeer_def
  replacePeerTrackNodesWithTrack_def replacePeerTrackNodes_def forPeer_def forPeerAndTrack_def
  createPeerTrackNode_def

lemmas registry_defs = addEventListener_def removeEventListener_def addPollUpdateListener_def
  addWhiteboardUpdateListener_def removePollSubscription_def removeWhiteboardSubscription_def

section \<open>What the join handler does to the state\<close>

lemma peerTrackNodes_dispatch: "peerTrackNodes (dispatch a s) = peerTrackNodes s"
  by (cases a) (simp_all add: dispatch_def)

lemma peerTrackNodes_fold_dispatch: "peerTrackNodes (fold dispatch as s) = peerTrackNodes s"
  by (induction as arbitrary: s) (simp_all add: peerTrackNodes_dispatch)

lemma peerTrackNodes_onJoinHandler:
  "peerTrackNodes (onJoinHandler r data s) = onJoin_updater r data (peerTrackNodes s)"
  by (simp add: onJoinHandler_def Let_def peerTrackNodes_dispatch peerTrackNodes_fold_dispatch
      startHLSStreaming_def perform_def setPeerTrackNodes_def setLoading_def)

lemma dispatched_dispatch: "dispatched (dispatch a s) = dispatched s @ [a]"
  by (simp add: dispatch_def)

lemma dispatched_fold_dispatch: "dispatched (fold dispatch as s) = dispatched s @ as"
  by (induction as arbitrary: s) (simp_all add: dispatched_dispatch)

lemma dispatched_onJoinHandler:
  "dispatched (onJoinHandler r data s) =
     dispatched s @ onJoin_batch r data
     @ (if shouldGoLive r then [changeStartingHLSStream True] else [])
     @ [changeMeetingState IN_MEETING]"
  by (simp add: onJoinHandler_def Let_def dispatched_dispatch dispatched_fold_dispatch
      startHLSStreaming_def perform_def setPeerTrackNodes_def setLoading_def)

lemma nodeKey_replaceWithTrack:
  "map nodeKey (replacePeerTrackNodesWithTrack nodes p t) = map nodeKey nodes"
  by (induction nodes)
    (auto simp: replacePeerTrackNodesWithTrack_def nodeKey_def forPeerAndTrack_def)

lemma nodeKey_replace: "map nodeKey (replacePeerTrackNodes nodes p) = map nodeKey nodes"
  by (induction nodes) (auto simp: replacePeerTrackNodes_def nodeKey_def forPeer_def)

lemma nodeKey_fresh:
  "\<not> peerTrackNodeExistForPeer nodes p \<Longrightarrow>
   nodeKey (createPeerTrackNode p t) \<notin> set (map nodeKey nodes)"
  by (auto simp: peerTrackNodeExistForPeer_def list_ex_iff nodeKey_def
      createPeerTrackNode_def forPeer_def)

lemma onJoin_updater_distinct:
  "distinct (map nodeKey prev) \<Longrightarrow> distinct (map nodeKey (onJoin_updater r data prev))"
  using nodeKey_fresh [of prev "room_localPeer data" "videoTrack (room_localPeer data)"]
  by (auto simp: onJoin_updater_def Let_def nodeKey_replaceWithTrack nodeKey_replace
      split: option.splits)

lemma forPeerAndTrack_forPeer: "forPeerAndTrack p t n \<Longrightarrow> forPeer p n"
  by (simp add: forPeerAndTrack_def forPeer_def)

text \<open>
  C1. The rendering list starts empty, and the join handler keeps it free of two nodes for
  the same (peer, track) combination: each of its three updates (replace for peer and
  track, replace for peer, prepend of the local node) leaves the keys of a list without
  duplicate keys without duplicates, and so does the handler as a whole.
\<close>

theorem onJoinHandler_unique_nodes:
  "distinct (map nodeKey (peerTrackNodes initialState))
   \<and> (distinct (map nodeKey prev) \<longrightarrow>
        distinct (map nodeKey (replacePeerTrackNodesWithTrack prev p t))
        \<and> distinct (map nodeKey (replacePeerTrackNodes prev p))
        \<and> (\<not> peerTrackNodeExistForPeer prev p \<longrightarrow>
             distinct (map nodeKey (createPeerTrackNode p u # prev))))
   \<and> (distinct (map nodeKey (peerTrackNodes s)) \<longrightarrow>
        distinct (map nodeKey (peerTrackNodes (onJoinHandler r data s))))"
proof -
  have "distinct (map nodeKey (peerTrackNodes initialState))"
    by (simp add: initialState_def)
  moreover have "distinct (map nodeKey (createPeerTrackNode p u # prev))"
    if "distinct (map nodeKey prev)" "\<not> peerTrackNodeExistForPeer prev p"
    using that nodeKey_fresh [of prev p u] by simp
  moreover have "distinct (map nodeKey (peerTrackNodes (onJoinHandler r data s)))"
    if "distinct (map nodeKey (peerTrackNodes s))"
    using that by (simp add: peerTrackNodes_onJoinHandler onJoin_updater_distinct)
  ultimately show ?thesis
    by (simp add: nodeKey_replaceWithTrack nodeKey_replace)
qed

theorem onJoinHandler_unique_nodes_witness:
  "distinct (map nodeKey (peerTrackNodes example_joined))
   \<and> \<not> peerTrackNodeExistForPeer [createPeerTrackNode example_peer None] example_guest
   \<and> distinct (map nodeKey [createPeerTrackNode example_guest None,
        createPeerTrackNode example_peer None])
   \<and> distinct (map nodeKey
        (peerTrackNodes (onJoinHandler example_publisher example_room example_joined)))
   \<and> peerTrackNodes (onJoinHandler example_publisher example_room example_joined) =
       [createPeerTrackNode example_guest None,
        createPeerTrackNode example_peer (Some example_track)]"
proof -
  have "distinct (map nodeKey (peerTrackNodes example_joined))"
    by (simp add: example_joined_def nodeKey_def example_defs example_guest_def
        createPeerTrackNode_def)
  moreover have "\<not> peerTrackNodeExistForPeer [createPeerTrackNode example_peer None] example_guest"
    by (simp add: helper_defs example_defs example_guest_def)
  moreover have "distinct (map nodeKey [createPeerTrackNode example_peer None])"
    by simp
  moreover have "peerTrackNodes (onJoinHandler example_publisher example_room example_joined) =
       [createPeerTrackNode example_guest None,
        createPeerTrackNode example_peer (Some example_track)]"
    by (simp add: peerTrackNodes_onJoinHandler onJoin_updater_def Let_def example_joined_def
        example_defs example_guest_def helper_defs)
  ultimately show ?thesis
    using onJoinHandler_unique_nodes
      [of "[createPeerTrackNode example_peer None]" example_guest example_track None
        example_joined example_publisher example_room]
    by simp
qed

text \<open>
  C2, as the code has it. When the local peer has a video track and the list holds a node
  for that peer and track, every such node is replaced in place by the node of the new
  peer and track. Otherwise, when the list holds a node for the peer, the peer of every
  such node is replaced in place. Otherwise the local node is prepended only when the
  local tile inset is off and the peer can create a tile; if not, the list stays as it is.
\<close>

theorem onJoinHandler_list_cases:
  "(videoTrack (room_localPeer data) = Some t
      \<and> list_ex (forPeerAndTrack (room_localPeer data) t) (peerTrackNodes s)
    \<longrightarrow> peerTrackNodes (onJoinHandler r data s) =
          map (\<lambda>n. if forPeerAndTrack (room_localPeer data) t n
                   then createPeerTrackNode (room_localPeer data) (Some t) else n)
            (peerTrackNodes s))
   \<and> (\<not> (\<exists>t. videoTrack (room_localPeer data) = Some t
            \<and> list_ex (forPeerAndTrack (room_localPeer data) t) (peerTrackNodes s))
      \<and> list_ex (forPeer (room_localPeer data)) (peerTrackNodes s)
    \<longrightarrow> peerTrackNodes (onJoinHandler r data s) =
          map (\<lambda>n. if forPeer (room_localPeer data) n then n\<lparr>peer := room_localPeer data\<rparr> else n)
            (peerTrackNodes s))
   \<and> (\<not> list_ex (forPeer (room_localPeer data)) (peerTrackNodes s)
    \<longrightarrow> peerTrackNodes (onJoinHandler r data s) =
          (if \<not> enableLocalTileInset r \<and> canCreateTile r
           then createPeerTrackNode (room_localPeer data) (videoTrack (room_localPeer data))
                # peerTrackNodes s
           else peerTrackNodes s))"
proof -
  have ex: "list_ex (forPeer (room_localPeer data)) (peerTrackNodes s)"
    if "list_ex (forPeerAndTrack (room_localPeer data) u) (peerTrackNodes s)" for u
    using that by (auto simp: list_ex_iff dest: forPeerAndTrack_forPeer)
  show ?thesis
    using ex
    by (auto simp: peerTrackNodes_onJoinHandler onJoin_updater_def Let_def
        peerTrackNodeExistForPeerAndTrack_def peerTrackNodeExistForPeer_def
        replacePeerTrackNodesWithTrack_def replacePeerTrackNodes_def createPeerTrackNode_def
        split: option.splits)
qed

theorem onJoinHandler_list_cases_witness:
  "videoTrack (room_localPeer example_room) = Some example_track
   \<and> list_ex (forPeerAndTrack (room_localPeer example_room) example_track)
       (peerTrackNodes example_joined)
   \<and> peerTrackNodes (onJoinHandler example_inset example_room example_joined) =
       [createPeerTrackNode example_guest None,
        createPeerTrackNode example_peer (Some example_track)]
   \<and> list_ex (forPeer (room_localPeer example_room)) (peerTrackNodes example_audio_only)
   \<and> peerTrackNodes (onJoinHandler example_inset example_room example_audio_only) =
       [createPeerTrackNode example_guest None, createPeerTrackNode example_peer None]
   \<and> \<not> list_ex (forPeer (room_localPeer example_room)) (peerTrackNodes initialState)
   \<and> \<not> enableLocalTileInset example_publisher \<and> canCreateTile example_publisher
   \<and> peerTrackNodes (onJoinHandler example_publisher example_room initialState) =
       [createPeerTrackNode example_peer (Some example_track)]"
proof -
  have a: "videoTrack (room_localPeer example_room) = Some example_track
      \<and> list_ex (forPeerAndTrack (room_localPeer example_room) example_track)
          (peerTrackNodes example_joined)"
    by (simp add: example_joined_def example_defs example_guest_def helper_defs)
  have b: "list_ex (forPeer (room_localPeer example_room)) (peerTrackNodes example_audio_only)
      \<and> \<not> (\<exists>t. videoTrack (room_localPeer example_room) = Some t
            \<and> list_ex (forPeerAndTrack (room_localPeer example_room) t)
                (peerTrackNodes example_audio_only))"
    by (simp add: example_audio_only_def example_defs example_guest_def helper_defs)
  have c: "\<not> list_ex (forPeer (room_localPeer example_room)) (peerTrackNodes initialState)
      \<and> \<not> enableLocalTileInset example_publisher \<and> canCreateTile example_publisher"
    by (simp add: initialState_def example_defs enableLocalTileInset_def canCreateTile_def)
  have a': "peerTrackNodes (onJoinHandler example_inset example_room example_joined) =
       [createPeerTrackNode example_guest None,
        createPeerTrackNode example_peer (Some example_track)]"
    using onJoinHandler_list_cases [of example_room example_track example_joined example_inset] a
    by (simp add: example_joined_def example_defs example_guest_def helper_defs)
  have b': "peerTrackNodes (onJoinHandler example_inset example_room example_audio_only) =
       [createPeerTrackNode example_guest None, createPeerTrackNode example_peer None]"
    using onJoinHandler_list_cases [of example_room example_track example_audio_only example_inset] b
    by (simp add: example_audio_only_def example_defs example_guest_def helper_defs)
  have c': "peerTrackNodes (onJoinHandler example_publisher example_room initialState) =
       [createPeerTrackNode example_peer (Some example_track)]"
    using onJoinHandler_list_cases [of example_room example_track initialState example_publisher] c
    by (simp add: initialState_def example_defs)
  show ?thesis
    using a b c a' b' c' by simp
qed

theorem onJoinHandler_prepend_counterexample:
  "\<not> list_ex (forPeer (room_localPeer example_room)) (peerTrackNodes initialState)
   \<and> peerTrackNodes (onJoinHandler example_inset example_room initialState) = []"
  by (simp add: peerTrackNodes_onJoinHandler onJoin_updater_def Let_def example_defs
      initialState_def peerTrackNodeExistForPeer_def peerTrackNodeExistForPeerAndTrack_def
      enableLocalTileInset_def canCreateTile_def)





section \<open>Errors\<close>

lemma orElse_nonempty: "t \<noteq> [] \<Longrightarrow> orElse (Some t) d = t"
  by (simp add: orElse_def)

text \<open>
  C3, as the code has it. For a terminal error (the SDK's flag or a terminal exception
  code): in preview the handler shows a dialog that cannot be cancelled and whose only
  button takes the leave path; in a state that is neither preview nor meeting the same
  dialog takes the destroy path; in an active meeting the handler shows no dialog and
  queues a TERMINAL_ERROR notification instead. The handler itself never leaves or
  destroys: both happen only when the button is pressed.
\<close>

theorem hmsErrorHandler_terminal:
  "terminalError codes e \<longrightarrow>
     (effects (hmsErrorHandler codes IN_PREVIEW uid e s) =
        effects s @ [Alert_alert (terminalErrorAlert True e)]
      \<and> dispatched (hmsErrorHandler codes IN_PREVIEW uid e s) = dispatched s
      \<and> map onPress (buttons (terminalErrorAlert True e)) = [[leave NETWORK_ISSUES]]
      \<and> \<not> cancelable (terminalErrorAlert True e))
     \<and> (effects (hmsErrorHandler codes NOT_JOINED uid e s) =
        effects s @ [Alert_alert (terminalErrorAlert False e)]
      \<and> effects (hmsErrorHandler codes MEETING_ENDED uid e s) =
        effects s @ [Alert_alert (terminalErrorAlert False e)]
      \<and> map onPress (buttons (terminalErrorAlert False e)) = [[destroy NETWORK_ISSUES]]
      \<and> \<not> cancelable (terminalErrorAlert False e))
     \<and> (effects (hmsErrorHandler codes IN_MEETING uid e s) = effects s
      \<and> dispatched (hmsErrorHandler codes IN_MEETING uid e s) =
        dispatched s @ [addNotification (TERMINAL_ERROR uid e)])"
  by (simp add: hmsErrorHandler_def Let_def perform_def setLoading_def dispatch_def
      terminalErrorAlert_def)

theorem hmsErrorHandler_terminal_witness:
  "terminalError [] example_terminal
   \<and> alertsOf (effects (hmsErrorHandler [] IN_PREVIEW ''u1'' example_terminal initialState)) =
       [\<lparr>alert_title = ''4005'', alert_message = ''ICE failure'',
         buttons = [\<lparr>button_text = ''Leave'', button_style = ''destructive'',
                     onPress = [leave NETWORK_ISSUES]\<rparr>],
         cancelable = False\<rparr>]"
proof -
  have t: "terminalError [] example_terminal"
    by (simp add: terminalError_def example_terminal_def)
  have a: "terminalErrorAlert True example_terminal =
       \<lparr>alert_title = ''4005'', alert_message = ''ICE failure'',
         buttons = [\<lparr>button_text = ''Leave'', button_style = ''destructive'',
                     onPress = [leave NETWORK_ISSUES]\<rparr>],
         cancelable = False\<rparr>"
    by (simp add: terminalErrorAlert_def example_terminal_def int_toString_def orElse_def)
  show ?thesis
    using hmsErrorHandler_terminal [of "[]" example_terminal "''u1''" initialState] t
    by (simp add: a initialState_def)
qed

theorem hmsErrorHandler_terminal_in_meeting_counterexample:
  "terminalError [] example_terminal
   \<and> alertsOf (effects (hmsErrorHandler [] IN_MEETING ''u1'' example_terminal initialState)) = []
   \<and> dispatched (hmsErrorHandler [] IN_MEETING ''u1'' example_terminal initialState) =
       [addNotification (TERMINAL_ERROR ''u1'' example_terminal)]"
  by (simp add: hmsErrorHandler_def Let_def dispatch_def terminalError_def
      example_terminal_def initialState_def)

text \<open>
  C4, as the code has it. For an error that is not terminal: in an active meeting the
  handler queues an ERROR notification with the error's description and shows nothing
  itself; in every other state, preview included, it clears the loading flag and shows a
  toast (long, at the top) with the code and the description, and no alert.
\<close>

theorem hmsErrorHandler_non_terminal:
  "\<not> terminalError codes e \<longrightarrow>
     (dispatched (hmsErrorHandler codes IN_MEETING uid e s) =
        dispatched s @ [addNotification (ERROR uid (description e))]
      \<and> effects (hmsErrorHandler codes IN_MEETING uid e s) = effects s
      \<and> loading (hmsErrorHandler codes IN_MEETING uid e s) = loading s)
     \<and> (m \<noteq> IN_MEETING \<longrightarrow>
        effects (hmsErrorHandler codes m uid e s) =
          effects s @ [Toast_showWithGravity
                        (int_toString (code e) @ '' '' @ interpolate (description e))
                        Toast_LONG Toast_TOP]
        \<and> dispatched (hmsErrorHandler codes m uid e s) = dispatched s
        \<and> loading (hmsErrorHandler codes m uid e s) = False)"
  by (simp add: hmsErrorHandler_def Let_def perform_def setLoading_def dispatch_def
      orElse_nonempty)

theorem hmsErrorHandler_non_terminal_witness:
  "\<not> terminalError [4005] example_nonterminal
   \<and> dispatched (hmsErrorHandler [4005] IN_MEETING ''u1'' example_nonterminal initialState) =
       [addNotification (ERROR ''u1'' None)]
   \<and> effects (hmsErrorHandler [4005] IN_PREVIEW ''u1'' example_nonterminal initialState) =
       [Toast_showWithGravity ''3001 undefined'' Toast_LONG Toast_TOP]"
proof -
  have t: "\<not> terminalError [4005] example_nonterminal"
    by (simp add: terminalError_def example_nonterminal_def)
  show ?thesis
    using hmsErrorHandler_non_terminal
      [of "[4005]" example_nonterminal "''u1''" initialState IN_PREVIEW] t
    by (simp add: example_nonterminal_def int_toString_def interpolate_def initialState_def)
qed

theorem hmsErrorHandler_preview_toast_counterexample:
  "\<not> terminalError [] example_nonterminal
   \<and> alertsOf (effects (hmsErrorHandler [] IN_PREVIEW ''u1'' example_nonterminal initialState)) = []
   \<and> toastsOf (effects (hmsErrorHandler [] IN_PREVIEW ''u1'' example_nonterminal initialState)) =
       [''3001 undefined'']"
  by (simp add: hmsErrorHandler_def Let_def perform_def setLoading_def terminalError_def
      example_nonterminal_def initialState_def int_toString_def orElse_def interpolate_def)

section \<open>The meeting state over a sequence of events\<close>

lemma app_meetingState_dispatch:
  "app_meetingState (dispatch a s) =
     (case a of changeMeetingState m \<Rightarrow> m | _ \<Rightarrow> app_meetingState s)"
  by (cases a) (simp_all add: dispatch_def)

lemma app_meetingState_onPreviewHandler: "app_meetingState (onPreviewHandler room s) = IN_PREVIEW"
  by (simp add: onPreviewHandler_def Let_def app_meetingState_dispatch)

lemma app_meetingState_onJoinHandler: "app_meetingState (onJoinHandler r data s) = IN_MEETING"
  by (simp add: onJoinHandler_def Let_def app_meetingState_dispatch)

lemma app_meetingState_hmsErrorHandler:
  "app_meetingState (hmsErrorHandler codes m uid e s) = app_meetingState s"
  by (simp add: hmsErrorHandler_def Let_def app_meetingState_dispatch perform_def setLoading_def)

lemma app_meetingState_onEvent:
  "app_meetingState (onEvent codes ev s) =
     (if isPreview ev then IN_PREVIEW else if isJoin ev then IN_MEETING else app_meetingState s)"
  by (cases ev)
    (simp_all add: app_meetingState_onPreviewHandler app_meetingState_onJoinHandler
      app_meetingState_hmsErrorHandler)

lemma forward_in_meeting:
  "list_all (\<lambda>e. \<not> isPreview e) evs \<Longrightarrow> app_meetingState s = IN_MEETING \<Longrightarrow>
   forward IN_MEETING (meetingStates codes evs s)"
proof (induction evs arbitrary: s)
  case Nil
  then show ?case by simp
next
  case (Cons ev evs)
  have now: "app_meetingState (onEvent codes ev s) = IN_MEETING"
    using Cons.prems by (simp add: app_meetingState_onEvent)
  have "forward IN_MEETING (meetingStates codes evs (onEvent codes ev s))"
    using Cons.IH [OF _ now] Cons.prems by simp
  then show ?case by (simp add: now)
qed

lemma forward_before_meeting:
  "previewsBeforeJoins evs \<Longrightarrow> stage (app_meetingState s) \<le> 1 \<Longrightarrow>
   forward (app_meetingState s) (meetingStates codes evs s)"
proof (induction evs arbitrary: s)
  case Nil
  then show ?case by simp
next
  case (Cons ev evs)
  show ?case
  proof (cases "isJoin ev")
    case True
    then have now: "app_meetingState (onEvent codes ev s) = IN_MEETING"
      by (cases ev) (simp_all add: app_meetingState_onJoinHandler)
    have "forward IN_MEETING (meetingStates codes evs (onEvent codes ev s))"
      using forward_in_meeting [OF _ now] Cons.prems True by simp
    then show ?thesis using Cons.prems by (simp add: now)
  next
    case False
    have small: "stage (app_meetingState (onEvent codes ev s)) \<le> 1"
      using False Cons.prems by (simp add: app_meetingState_onEvent)
    have up: "stage (app_meetingState s) \<le> stage (app_meetingState (onEvent codes ev s))"
      using False Cons.prems
      by (cases "app_meetingState s") (simp_all add: app_meetingState_onEvent)
    have "forward (app_meetingState (onEvent codes ev s))
        (meetingStates codes evs (onEvent codes ev s))"
      using Cons.IH [OF _ small] Cons.prems by simp
    then show ?thesis using up by simp
  qed
qed

text \<open>
  C6, as the code has it. A preview event sets the meeting state to IN_PREVIEW and a join
  event sets it to IN_MEETING, whatever the state was, each with exactly one
  \<open>changeMeetingState\<close>; an error event leaves the meeting state alone. From a state that
  is not yet in a meeting, a sequence of events in which no preview event follows a join
  event never moves the state backwards.
\<close>

theorem meeting_state_transitions:
  "app_meetingState (onEvent codes (ON_PREVIEW_event room) s) = IN_PREVIEW
   \<and> app_meetingState (onEvent codes (ON_JOIN_event r data) s) = IN_MEETING
   \<and> app_meetingState (onEvent codes (ON_ERROR_event uid e) s) = app_meetingState s
   \<and> dispatched (onPreviewHandler room s) =
       dispatched s @ [setHMSRoomState room, setHMSLocalPeerState (room_localPeer room),
                       changeMeetingState IN_PREVIEW]
   \<and> dispatched (onJoinHandler r data s) =
       dispatched s @ onJoin_batch r data
       @ (if shouldGoLive r then [changeStartingHLSStream True] else [])
       @ [changeMeetingState IN_MEETING]
   \<and> changeMeetingState m \<notin> set (onJoin_batch r data)
   \<and> (stage (app_meetingState s) \<le> 1 \<and> previewsBeforeJoins evs
      \<longrightarrow> forward (app_meetingState s) (meetingStates codes evs s))"
proof -
  have "dispatched (onPreviewHandler room s) =
       dispatched s @ [setHMSRoomState room, setHMSLocalPeerState (room_localPeer room),
                       changeMeetingState IN_PREVIEW]"
    by (simp add: onPreviewHandler_def Let_def dispatched_dispatch setLoading_def)
  moreover have "changeMeetingState m \<notin> set (onJoin_batch r data)"
    by (auto simp: onJoin_batch_def Let_def split: option.splits if_splits)
  ultimately show ?thesis
    using forward_before_meeting [of evs s codes]
    by (simp add: app_meetingState_onPreviewHandler app_meetingState_onJoinHandler
        app_meetingState_hmsErrorHandler dispatched_onJoinHandler)
qed

theorem meeting_state_transitions_witness:
  "stage (app_meetingState initialState) \<le> 1
   \<and> previewsBeforeJoins
       [ON_PREVIEW_event example_room, ON_ERROR_event ''u1'' example_nonterminal,
        ON_JOIN_event example_publisher example_room, ON_ERROR_event ''u2'' example_nonterminal]
   \<and> forward (app_meetingState initialState)
       (meetingStates []
          [ON_PREVIEW_event example_room, ON_ERROR_event ''u1'' example_nonterminal,
           ON_JOIN_event example_publisher example_room, ON_ERROR_event ''u2'' example_nonterminal]
          initialState)
   \<and> meetingStates []
          [ON_PREVIEW_event example_room, ON_ERROR_event ''u1'' example_nonterminal,
           ON_JOIN_event example_publisher example_room, ON_ERROR_event ''u2'' example_nonterminal]
          initialState = [IN_PREVIEW, IN_PREVIEW, IN_MEETING, IN_MEETING]"
proof -
  have start: "app_meetingState initialState = NOT_JOINED"
    by (simp add: initialState_def)
  show ?thesis
    using meeting_state_transitions
      [of "[]" example_room initialState example_publisher example_room "''u1''"
        example_nonterminal NOT_JOINED
        "[ON_PREVIEW_event example_room, ON_ERROR_event ''u1'' example_nonterminal,
          ON_JOIN_event example_publisher example_room,
          ON_ERROR_event ''u2'' example_nonterminal]"]
    by (simp add: start app_meetingState_onPreviewHandler app_meetingState_onJoinHandler
        app_meetingState_hmsErrorHandler)
qed

theorem meeting_state_backwards_counterexample:
  "meetingStates []
     [ON_JOIN_event example_publisher example_room, ON_PREVIEW_event example_room]
     initialState = [IN_MEETING, IN_PREVIEW]
   \<and> \<not> forward (app_meetingState initialState)
        (meetingStates []
          [ON_JOIN_event example_publisher example_room, ON_PREVIEW_event example_room]
          initialState)"
  by (simp add: app_meetingState_onJoinHandler app_meetingState_onPreviewHandler)

section \<open>Poll notifications\<close>

lemma pollNotificationsFor_append:
  "pollNotificationsFor i (xs @ ys) = pollNotificationsFor i xs + pollNotificationsFor i ys"
  by (induction i xs rule: pollNotificationsFor.induct) simp_all

lemma dispatched_perform: "dispatched (perform e s) = dispatched s"
  by (simp add: perform_def)

lemma polls_polls_perform: "polls_polls (perform e s) = polls_polls s"
  by (simp add: perform_def)

lemma dispatched_onPollUpdate:
  "dispatched (onPollUpdate u s) =
     dispatched s @ [addPoll (upd_poll u)]
     @ (if notified u s
        then [addNotification (pollNotification (upd_poll u) (upd_type u))]
             @ (if upd_viewer u then [addCuedPollId (pollId (upd_poll u))] else [])
        else [])"
  by (simp add: onPollUpdate_def pollUpdateListener_def Let_def dispatched_dispatch
      dispatched_perform polls_polls_perform notified_def split: option.splits)

lemma polls_polls_onPollUpdate:
  "polls_polls (onPollUpdate u s) = (polls_polls s)(pollId (upd_poll u) \<mapsto> upd_poll u)"
  by (simp add: onPollUpdate_def pollUpdateListener_def Let_def dispatch_def perform_def
      split: option.splits)

lemma count_onPollUpdate:
  "pollNotificationsFor i (dispatched (onPollUpdate u s)) =
     pollNotificationsFor i (dispatched s)
     + (if notified u s \<and> pollId (upd_poll u) = i then 1 else 0)"
  by (simp add: dispatched_onPollUpdate pollNotificationsFor_append pollNotification_def)

lemma count_fold_onPollUpdate:
  "pollNotificationsFor i (dispatched (fold onPollUpdate us s)) \<le>
     pollNotificationsFor i (dispatched s) + (if polls_polls s i = None then 1 else 0)"
proof (induction us arbitrary: s)
  case Nil
  then show ?case by simp
next
  case (Cons u us)
  have step: "pollNotificationsFor i (dispatched (onPollUpdate u s))
        + (if polls_polls (onPollUpdate u s) i = None then 1 else 0)
      \<le> pollNotificationsFor i (dispatched s) + (if polls_polls s i = None then 1 else 0)"
    by (simp add: count_onPollUpdate polls_polls_onPollUpdate notified_def)
  show ?case
    using Cons.IH [of "onPollUpdate u s"] step by simp
qed

lemma count_fold_known:
  "polls_polls s i \<noteq> None \<Longrightarrow>
   pollNotificationsFor i (dispatched (fold onPollUpdate us s)) =
     pollNotificationsFor i (dispatched s)"
proof (induction us arbitrary: s)
  case Nil
  then show ?case by simp
next
  case (Cons u us)
  have "polls_polls (onPollUpdate u s) i \<noteq> None"
    using Cons.prems by (simp add: polls_polls_onPollUpdate)
  moreover have "pollNotificationsFor i (dispatched (onPollUpdate u s)) =
      pollNotificationsFor i (dispatched s)"
    using Cons.prems by (auto simp: count_onPollUpdate notified_def)
  ultimately show ?case
    using Cons.IH [of "onPollUpdate u s"] by simp
qed

text \<open>
  C5, as the code has it. Take a poll-started update about a poll that is not in the
  store, received by an HLS viewer, and any updates after it. Over the whole sequence the
  listener dispatches exactly one notification for the poll if the poll has a start time
  20000 ms or more before the first update, and none if it has not. Once a poll is in the
  store no update adds a notification for it; from the initial state every poll id gets
  at most one.
\<close>

theorem pollUpdateListener_viewer_notification:
  "(upd_type u = started \<and> polls_polls s (pollId (upd_poll u)) = None \<and> upd_viewer u \<longrightarrow>
      pollNotificationsFor (pollId (upd_poll u)) (dispatched (fold onPollUpdate (u # us) s)) =
        pollNotificationsFor (pollId (upd_poll u)) (dispatched s)
        + (if \<exists>t. startedAt (upd_poll u) = Some t \<and> 20000 \<le> upd_now u - t then 1 else 0))
   \<and> (polls_polls s i \<noteq> None \<longrightarrow>
        pollNotificationsFor i (dispatched (fold onPollUpdate us s)) =
          pollNotificationsFor i (dispatched s))
   \<and> pollNotificationsFor i (dispatched (fold onPollUpdate us initialState)) \<le> 1"
proof -
  have one: "pollNotificationsFor (pollId (upd_poll u))
          (dispatched (fold onPollUpdate (u # us) s)) =
        pollNotificationsFor (pollId (upd_poll u)) (dispatched s)
        + (if \<exists>t. startedAt (upd_poll u) = Some t \<and> 20000 \<le> upd_now u - t then 1 else 0)"
    if "upd_type u = started" "polls_polls s (pollId (upd_poll u)) = None" "upd_viewer u"
  proof -
    have "polls_polls (onPollUpdate u s) (pollId (upd_poll u)) \<noteq> None"
      by (simp add: polls_polls_onPollUpdate)
    then have "pollNotificationsFor (pollId (upd_poll u))
          (dispatched (fold onPollUpdate us (onPollUpdate u s))) =
        pollNotificationsFor (pollId (upd_poll u)) (dispatched (onPollUpdate u s))"
      by (rule count_fold_known)
    then show ?thesis
      using that by (simp add: count_onPollUpdate notified_def split: option.splits)
  qed
  have init: "pollNotificationsFor i (dispatched (fold onPollUpdate us initialState)) \<le> 1"
    using count_fold_onPollUpdate [of i us initialState] by (simp add: initialState_def)
  show ?thesis
    using one init count_fold_known [of s i us] by blast
qed

theorem pollUpdateListener_viewer_notification_witness:
  "upd_type (example_update 25000) = started
   \<and> polls_polls initialState (pollId (upd_poll (example_update 25000))) = None
   \<and> upd_viewer (example_update 25000)
   \<and> pollNotificationsFor ''poll1''
       (dispatched (fold onPollUpdate [example_update 25000, example_update 30000]
          initialState)) = 1
   \<and> polls_polls (onPollUpdate (example_update 25000) initialState) ''poll1'' \<noteq> None
   \<and> pollNotificationsFor ''poll1''
       (dispatched (fold onPollUpdate [example_update 30000, example_update 60000]
          (onPollUpdate (example_update 25000) initialState))) = 1"
proof -
  have known: "polls_polls (onPollUpdate (example_update 25000) initialState) ''poll1'' \<noteq> None"
    by (simp add: polls_polls_onPollUpdate example_update_def example_poll_def)
  have first: "pollNotificationsFor ''poll1''
      (dispatched (onPollUpdate (example_update 25000) initialState)) = 1"
    by (simp add: count_onPollUpdate notified_def example_update_def example_poll_def
        initialState_def)
  show ?thesis
    using pollUpdateListener_viewer_notification
      [of "example_update 25000" initialState "[example_update 30000]" "''poll1''"]
      pollUpdateListener_viewer_notification
      [of "example_update 25000" "onPollUpdate (example_update 25000) initialState"
        "[example_update 30000, example_update 60000]" "''poll1''"]
      known first
    by (simp add: example_update_def example_poll_def initialState_def)
qed

theorem pollUpdateListener_never_notified_counterexample:
  "pollNotificationsFor ''poll1''
     (dispatched (fold onPollUpdate [example_update 5000, example_update 30000] initialState)) = 0"
  by (simp add: dispatched_onPollUpdate polls_polls_onPollUpdate notified_def example_update_def
      example_poll_def initialState_def)

section \<open>Listeners are removed on unmount\<close>

lemma mount_allRegistered: "allRegistered os (mount os (freshInstance k))"
  by (cases os)
    (auto simp: allRegistered_def mount_def listenerEffects_def listenerActions_def
      freshInstance_def registry_defs)

lemma rerun_allRegistered:
  "e \<in> set (listenerEffects os) \<Longrightarrow> allRegistered os m \<Longrightarrow> allRegistered os (rerun e m)"
  by (cases e; cases os)
    (auto simp: allRegistered_def rerun_def listenerEffects_def listenerActions_def
      registry_defs split: option.splits)

lemma fold_rerun_allRegistered:
  "set es \<subseteq> set (listenerEffects os) \<Longrightarrow> allRegistered os m \<Longrightarrow>
   allRegistered os (fold rerun es m)"
  by (induction es arbitrary: m) (simp_all add: rerun_allRegistered)

lemma removeAll_all: "set xs \<subseteq> set ys \<Longrightarrow> fold removeAll ys xs = []"
proof (induction ys arbitrary: xs)
  case Nil
  then show ?case by simp
next
  case (Cons y ys)
  have "set (removeAll y xs) \<subseteq> set ys"
    using Cons.prems by auto
  then show ?case
    using Cons.IH by simp
qed

lemma unmount_allRegistered: "allRegistered os m \<Longrightarrow> noListeners (unmount os m)"
proof -
  assume r: "allRegistered os m"
  have ev: "eventListeners (hmsInstance (unmount os m)) =
      fold removeAll (listenerActions os) (eventListeners (hmsInstance m))"
    by (cases os)
      (auto simp: unmount_def listenerEffects_def listenerActions_def registry_defs
        split: option.splits)
  have "eventListeners (hmsInstance (unmount os m)) = []"
    using r removeAll_all [of "eventListeners (hmsInstance m)" "listenerActions os"]
    by (simp add: ev allRegistered_def)
  moreover have "pollUpdateListeners (hmsInstance (unmount os m)) = []"
    "whiteboardUpdateListeners (hmsInstance (unmount os m)) = []"
    using r
    by (cases os; auto simp: allRegistered_def unmount_def listenerEffects_def registry_defs
        split: option.splits)+
  ultimately show ?thesis
    by (simp add: noListeners_def)
qed

text \<open>
  C8. Mounting attaches every listener of the component (error, preview, join,
  permissions-requested on Android, one poll and one whiteboard subscription). After any
  number of re-runs of these effects, unmounting leaves no event listener and no live
  subscription on the instance.
\<close>

theorem unmount_removes_listeners:
  "allRegistered os (mount os (freshInstance k))
   \<and> (set es \<subseteq> set (listenerEffects os) \<longrightarrow>
        noListeners (unmount os (fold rerun es (mount os (freshInstance k)))))"
  using mount_allRegistered [of os k] fold_rerun_allRegistered unmount_allRegistered
  by blast

theorem unmount_removes_listeners_witness:
  "set [ErrorListener, PollListener, ErrorListener] \<subseteq> set (listenerEffects android)
   \<and> noListeners (unmount android
        (fold rerun [ErrorListener, PollListener, ErrorListener] (mount android (freshInstance 0))))
   \<and> eventListeners (hmsInstance (mount android (freshInstance 0))) =
       [ON_PERMISSIONS_REQUESTED, ON_JOIN, ON_PREVIEW, ON_ERROR]
   \<and> pollUpdateListeners (hmsInstance (mount android (freshInstance 0))) = [0]
   \<and> whiteboardUpdateListeners (hmsInstance (mount android (freshInstance 0))) = [1]"
proof -
  have "set [ErrorListener, PollListener, ErrorListener] \<subseteq> set (listenerEffects android)"
    by (simp add: listenerEffects_def)
  moreover have "eventListeners (hmsInstance (mount android (freshInstance 0))) =
       [ON_PERMISSIONS_REQUESTED, ON_JOIN, ON_PREVIEW, ON_ERROR]
   \<and> pollUpdateListeners (hmsInstance (mount android (freshInstance 0))) = [0]
   \<and> whiteboardUpdateListeners (hmsInstance (mount android (freshInstance 0))) = [1]"
    by (simp add: mount_def listenerEffects_def freshInstance_def registry_defs)
  ultimately show ?thesis
    using unmount_removes_listeners [of android 0 "[ErrorListener, PollListener, ErrorListener]"]
    by simp
qed

section \<open>The automatic action runs once\<close>

lemma autoMeetingRuns_guarded: "autoMeetingRuns True rs = []"
  by (induction rs) (auto simp: autoMeetingEffect_def)

lemma handleMeetingPreviewOrJoin_once:
  "length (filter isMeetingAction (handleMeetingPreviewOrJoin i)) \<le> 1"
  by (simp add: handleMeetingPreviewOrJoin_def split: option.splits)

lemma autoMeetingRuns_once:
  "autoMeetingRuns False rs = [] \<or>
   (\<exists>i. autoMeetingRuns False rs = [handleMeetingPreviewOrJoin i])"
proof (induction rs)
  case Nil
  then show ?case by simp
next
  case (Cons r rs)
  obtain meetingEnded i where r: "r = (meetingEnded, i)"
    by (cases r)
  show ?case
  proof (cases meetingEnded)
    case True
    then show ?thesis
      using Cons.IH by (simp add: r autoMeetingEffect_def)
  next
    case False
    then have "autoMeetingRuns False (r # rs) = [handleMeetingPreviewOrJoin i]"
      by (simp add: r autoMeetingEffect_def autoMeetingRuns_guarded)
    then show ?thesis by blast
  qed
qed

text \<open>
  C9. Over any sequence of runs of the effect in one component lifetime (the ref starts
  false), \<open>handleMeetingPreviewOrJoin\<close> is invoked at most once and so at most one join or
  preview is initiated; once the ref is set, no run invokes it.
\<close>

theorem autoMeetingAction_at_most_once:
  "length (autoMeetingRuns False rs) \<le> 1
   \<and> length (filter isMeetingAction (concat (autoMeetingRuns False rs))) \<le> 1
   \<and> autoMeetingRuns True rs = []"
  using autoMeetingRuns_once [of rs] handleMeetingPreviewOrJoin_once
  by (auto simp: autoMeetingRuns_guarded)

theorem autoMeetingAction_at_most_once_witness:
  "autoMeetingRuns False
     [(True, example_inputs True), (False, example_inputs False), (False, example_inputs True)]
     = [[previewMeeting]]
   \<and> length (autoMeetingRuns False
       [(True, example_inputs True), (False, example_inputs False), (False, example_inputs True)])
      \<le> 1"
proof -
  have "autoMeetingRuns False
     [(True, example_inputs True), (False, example_inputs False), (False, example_inputs True)]
     = [[previewMeeting]]"
    by (simp add: autoMeetingEffect_def handleMeetingPreviewOrJoin_def example_inputs_def)
  then show ?thesis
    using autoMeetingAction_at_most_once
      [of "[(True, example_inputs True), (False, example_inputs False),
            (False, example_inputs True)]"]
    by simp
qed

section \<open>The join button\<close>

text \<open>
  C10. The button that \<open>HMSPreviewJoinButton\<close> renders is disabled exactly when the stored
  user name is empty (length at most 0) or loading is true; with a non-empty user name and
  loading false it is enabled.
\<close>

theorem HMSPreviewJoinButton_disabled:
  "disabled (HMSPreviewJoinButton joinTitle loadingProp userName labels goLive)
     = (length userName \<le> 0 \<or> loadingProp)
   \<and> (userName \<noteq> [] \<and> \<not> loadingProp \<longrightarrow>
        \<not> disabled (HMSPreviewJoinButton joinTitle loadingProp userName labels goLive))"
  by (simp add: HMSPreviewJoinButton_def Let_def)

theorem HMSPreviewJoinButton_disabled_witness:
  "''ann'' \<noteq> []
   \<and> \<not> disabled (HMSPreviewJoinButton ''Join'' False ''ann'' example_labels False)
   \<and> disabled (HMSPreviewJoinButton ''Join'' False [] example_labels False)
   \<and> disabled (HMSPreviewJoinButton ''Join'' True ''ann'' example_labels False)"
  using HMSPreviewJoinButton_disabled [of "''Join''" False "''ann''" example_labels False]
    HMSPreviewJoinButton_disabled [of "''Join''" False "[]" example_labels False]
    HMSPreviewJoinButton_disabled [of "''Join''" True "''ann''" example_labels False]
  by simp

end
